theory Spec2Isabelle
  imports Main "HOL-Library.Sublist" "HOL-Library.Char_ord" "HOL-Library.List_Lexorder"
begin

section \<open>Data model of \<^verbatim>\<open>snowflake/ml/_internal/env_utils.py\<close>\<close>

text \<open>
  A \<^verbatim>\<open>packaging.requirements.Requirement\<close> object, with the five attributes the module
  reads or writes.  The version specifier set is an object of the \<^verbatim>\<open>packaging\<close> library
  and stays abstract (the type parameter \<open>'s\<close>); \<^verbatim>\<open>extras\<close> is a set of strings; \<^verbatim>\<open>url\<close>
  and \<^verbatim>\<open>marker\<close> are \<^verbatim>\<open>None\<close> when absent.
\<close>

record 's requirement =
  name :: string
  url :: "string option"
  extras :: "string set"
  specifier :: 's
  marker :: "string option"

text \<open>
  The exceptions the module raises.  \<^verbatim>\<open>ValueError\<close> carries which of the four messages was
  raised; the duplicate errors carry the values their message is formatted from: the
  requirement found, its channel (\<^verbatim>\<open>None\<close> for the pip list, whose message names no channel),
  the requirement being appended, and for the multi-channel error its channel.
\<close>

datatype value_error =
    InvalidPackageRequirement string
  | MarkersNotSupported
  | ExtrasNotSupported
  | UrlNotSupported

datatype 's error =
    ValueError value_error
  | DuplicateDependencyError "string option" "'s requirement" "'s requirement"
  | DuplicateDependencyInMultipleChannelsError "'s requirement" string "'s requirement" string

fun is_ValueError :: "'s error \<Rightarrow> bool" where
  "is_ValueError (ValueError _) = True"
| "is_ValueError _ = False"

fun is_DuplicateDependencyError :: "'s error \<Rightarrow> bool" where
  "is_DuplicateDependencyError (DuplicateDependencyError _ _ _) = True"
| "is_DuplicateDependencyError _ = False"

fun is_DuplicateDependencyInMultipleChannelsError :: "'s error \<Rightarrow> bool" where
  "is_DuplicateDependencyInMultipleChannelsError (DuplicateDependencyInMultipleChannelsError _ _ _ _) = True"
| "is_DuplicateDependencyInMultipleChannelsError _ = False"

text \<open>Python truthiness of \<^verbatim>\<open>r.url\<close> (an optional string) and \<^verbatim>\<open>r.extras\<close> (a set).\<close>

definition truthy_url :: "string option \<Rightarrow> bool" where
  "truthy_url u = (case u of None \<Rightarrow> False | Some s \<Rightarrow> s \<noteq> [])"

definition truthy_extras :: "string set \<Rightarrow> bool" where
  "truthy_extras e = (e \<noteq> {})"

section \<open>Parsing one requirement string\<close>

text \<open>
  \<^verbatim>\<open>_validate_pip_requirement_string\<close> (the leading underscore is dropped).  The constructor
  \<^verbatim>\<open>requirements.Requirement\<close> and \<^verbatim>\<open>packaging_utils.canonicalize_name\<close> belong to the
  third-party \<^verbatim>\<open>packaging\<close> library: they are the parameters \<open>Requirement\<close> (\<open>None\<close> when it
  raises \<^verbatim>\<open>InvalidRequirement\<close>) and \<open>canonicalize_name\<close>.  A \<^verbatim>\<open>Marker\<close> object is always
  truthy, so \<^verbatim>\<open>if r.marker\<close> tests for \<^verbatim>\<open>None\<close>.
\<close>

definition validate_pip_requirement_string ::
  "(string \<Rightarrow> 's requirement option) \<Rightarrow> (string \<Rightarrow> string) \<Rightarrow> string \<Rightarrow> 's error + 's requirement" where
  "validate_pip_requirement_string Requirement canonicalize_name req_str =
     (case Requirement req_str of
        None \<Rightarrow> Inl (ValueError (InvalidPackageRequirement req_str))
      | Some r0 \<Rightarrow>
          (let r = r0\<lparr>name := canonicalize_name (name r0)\<rparr>
           in if marker r \<noteq> None then Inl (ValueError MarkersNotSupported) else Inr r))"

text \<open>
  Python's \<^verbatim>\<open>str.rpartition("::")\<close>: \<open>rfind_sep\<close> is the highest index at which \<^verbatim>\<open>"::"\<close>
  starts, and the string is cut there; without an occurrence the result is
  \<^verbatim>\<open>("", "", s)\<close>.
\<close>

fun rfind_sep :: "string \<Rightarrow> nat option" where
  "rfind_sep [] = None"
| "rfind_sep (c # cs) =
     (case rfind_sep cs of
        Some i \<Rightarrow> Some (Suc i)
      | None \<Rightarrow> if c = CHR '':'' \<and> take 1 cs = '':'' then Some 0 else None)"

definition rpartition_sep :: "string \<Rightarrow> string \<times> string \<times> string" where
  "rpartition_sep s =
     (case rfind_sep s of
        None \<Rightarrow> ('''', '''', s)
      | Some i \<Rightarrow> (take i s, ''::'', drop (i + 2) s))"

text \<open>\<^verbatim>\<open>_validate_conda_dependency_string\<close>.\<close>

definition validate_conda_dependency_string ::
  "(string \<Rightarrow> 's requirement option) \<Rightarrow> (string \<Rightarrow> string) \<Rightarrow> string
     \<Rightarrow> 's error + (string \<times> 's requirement)" where
  "validate_conda_dependency_string Requirement canonicalize_name dep_str =
     (case rpartition_sep dep_str of
        (channel_str0, _, requirement_str) \<Rightarrow>
          (let channel_str = (if channel_str0 = '''' then ''defaults'' else channel_str0)
           in case validate_pip_requirement_string Requirement canonicalize_name requirement_str of
                Inl e \<Rightarrow> Inl e
              | Inr r \<Rightarrow>
                  if channel_str \<noteq> ''pip'' then
                    (if truthy_extras (extras r) then Inl (ValueError ExtrasNotSupported)
                     else if truthy_url (url r) then Inl (ValueError UrlNotSupported)
                     else Inr (channel_str, r))
                  else Inr (channel_str, r)))"

text \<open>\<^verbatim>\<open>_check_if_requirement_same\<close>.\<close>

definition check_if_requirement_same :: "'s requirement \<Rightarrow> 's requirement \<Rightarrow> bool" where
  "check_if_requirement_same req_a req_b = (name req_a = name req_b)"

section \<open>Appending to a requirement list and to a channel dictionary\<close>

text \<open>
  \<^verbatim>\<open>append_requirement_list\<close> mutates its argument, so the model returns the list as the
  call leaves it, next to the outcome: \<open>Inl\<close> the exception raised, \<open>Inr ()\<close> a normal
  return.  \<open>requirement_list_scan\<close> is the \<^verbatim>\<open>for\<close> loop: \<open>Some\<close> the exception of the first
  entry with the same name, \<open>None\<close> when the loop runs to its end.
\<close>

fun requirement_list_scan :: "'s requirement list \<Rightarrow> 's requirement \<Rightarrow> 's error option" where
  "requirement_list_scan [] p_req = None"
| "requirement_list_scan (req # rest) p_req =
     (if check_if_requirement_same p_req req then Some (DuplicateDependencyError None req p_req)
      else requirement_list_scan rest p_req)"

definition append_requirement_list ::
  "'s requirement list \<Rightarrow> 's requirement \<Rightarrow> ('s error + unit) \<times> 's requirement list" where
  "append_requirement_list req_list p_req =
     (case requirement_list_scan req_list p_req of
        Some e \<Rightarrow> (Inl e, req_list)
      | None \<Rightarrow> (Inr (), req_list @ [p_req]))"

text \<open>
  A \<^verbatim>\<open>DefaultDict[str, List[Requirement]]\<close> is an association list in insertion order, the
  order in which \<^verbatim>\<open>.items()\<close> iterates.  \<open>defaultdict_append\<close> is
  \<^verbatim>\<open>d[k].append(v)\<close> on a \<^verbatim>\<open>defaultdict(list)\<close>: a present key keeps its place and its
  list grows at the end, a missing key is inserted last with the one-element list.
\<close>

type_synonym 's conda_chan_deps = "(string \<times> 's requirement list) list"

fun defaultdict_append :: "(string \<times> 'a list) list \<Rightarrow> string \<Rightarrow> 'a \<Rightarrow> (string \<times> 'a list) list" where
  "defaultdict_append [] k v = [(k, [v])]"
| "defaultdict_append ((k', vs) # rest) k v =
     (if k' = k then (k', vs @ [v]) # rest else (k', vs) # defaultdict_append rest k v)"

text \<open>
  The two nested \<^verbatim>\<open>for\<close> loops of \<^verbatim>\<open>append_conda_dependency\<close>: \<open>channel_list_scan\<close> runs over
  one channel's list, \<open>conda_chan_deps_scan\<close> over the items of the dictionary.
\<close>

fun channel_list_scan ::
  "string \<Rightarrow> 's requirement list \<Rightarrow> string \<Rightarrow> 's requirement \<Rightarrow> 's error option" where
  "channel_list_scan chan_channel [] p_channel p_req = None"
| "channel_list_scan chan_channel (chan_req # rest) p_channel p_req =
     (if check_if_requirement_same p_req chan_req then
        (if chan_channel \<noteq> p_channel
         then Some (DuplicateDependencyInMultipleChannelsError chan_req chan_channel p_req p_channel)
         else Some (DuplicateDependencyError (Some chan_channel) chan_req p_req))
      else channel_list_scan chan_channel rest p_channel p_req)"

fun conda_chan_deps_scan ::
  "'s conda_chan_deps \<Rightarrow> string \<Rightarrow> 's requirement \<Rightarrow> 's error option" where
  "conda_chan_deps_scan [] p_channel p_req = None"
| "conda_chan_deps_scan ((chan_channel, chan_req_list) # rest) p_channel p_req =
     (case channel_list_scan chan_channel chan_req_list p_channel p_req of
        Some e \<Rightarrow> Some e
      | None \<Rightarrow> conda_chan_deps_scan rest p_channel p_req)"

definition append_conda_dependency ::
  "'s conda_chan_deps \<Rightarrow> string \<times> 's requirement \<Rightarrow> ('s error + unit) \<times> 's conda_chan_deps" where
  "append_conda_dependency conda_chan_deps p_chan_dep =
     (case p_chan_dep of
        (p_channel, p_req) \<Rightarrow>
          (case conda_chan_deps_scan conda_chan_deps p_channel p_req of
             Some e \<Rightarrow> (Inl e, conda_chan_deps)
           | None \<Rightarrow> (Inr (), defaultdict_append conda_chan_deps p_channel p_req)))"

section \<open>Validating lists of strings\<close>

text \<open>
  \<^verbatim>\<open>validate_pip_requirement_string_list\<close>: the loop carries the list seen so far; an
  exception of either callee ends it.
\<close>

fun pip_requirement_loop ::
  "(string \<Rightarrow> 's requirement option) \<Rightarrow> (string \<Rightarrow> string) \<Rightarrow> 's requirement list \<Rightarrow> string list
     \<Rightarrow> 's error + 's requirement list" where
  "pip_requirement_loop Requirement canonicalize_name seen [] = Inr seen"
| "pip_requirement_loop Requirement canonicalize_name seen (req_str # rest) =
     (case validate_pip_requirement_string Requirement canonicalize_name req_str of
        Inl e \<Rightarrow> Inl e
      | Inr r \<Rightarrow>
          (case append_requirement_list seen r of
             (Inl e, _) \<Rightarrow> Inl e
           | (Inr _, seen') \<Rightarrow> pip_requirement_loop Requirement canonicalize_name seen' rest))"

definition validate_pip_requirement_string_list ::
  "(string \<Rightarrow> 's requirement option) \<Rightarrow> (string \<Rightarrow> string) \<Rightarrow> string list
     \<Rightarrow> 's error + 's requirement list" where
  "validate_pip_requirement_string_list Requirement canonicalize_name req_str_list =
     pip_requirement_loop Requirement canonicalize_name [] req_str_list"

text \<open>
  \<^verbatim>\<open>validate_conda_dependency_string_list\<close> first validates every string
  (\<^verbatim>\<open>list(map(...))\<close> is eager: the first invalid string raises before anything is
  appended), then appends the pairs one by one to an empty dictionary.
\<close>

fun map_validate ::
  "(string \<Rightarrow> 's requirement option) \<Rightarrow> (string \<Rightarrow> string) \<Rightarrow> string list
     \<Rightarrow> 's error + (string \<times> 's requirement) list" where
  "map_validate Requirement canonicalize_name [] = Inr []"
| "map_validate Requirement canonicalize_name (dep_str # rest) =
     (case validate_conda_dependency_string Requirement canonicalize_name dep_str of
        Inl e \<Rightarrow> Inl e
      | Inr cr \<Rightarrow>
          (case map_validate Requirement canonicalize_name rest of
             Inl e \<Rightarrow> Inl e
           | Inr crs \<Rightarrow> Inr (cr # crs)))"

fun conda_dependency_loop ::
  "'s conda_chan_deps \<Rightarrow> (string \<times> 's requirement) list \<Rightarrow> 's error + 's conda_chan_deps" where
  "conda_dependency_loop d [] = Inr d"
| "conda_dependency_loop d (p_chan_dep # rest) =
     (case append_conda_dependency d p_chan_dep of
        (Inl e, _) \<Rightarrow> Inl e
      | (Inr _, d') \<Rightarrow> conda_dependency_loop d' rest)"

definition validate_conda_dependency_string_list ::
  "(string \<Rightarrow> 's requirement option) \<Rightarrow> (string \<Rightarrow> string) \<Rightarrow> string list
     \<Rightarrow> 's error + 's conda_chan_deps" where
  "validate_conda_dependency_string_list Requirement canonicalize_name dep_str_list =
     (case map_validate Requirement canonicalize_name dep_str_list of
        Inl e \<Rightarrow> Inl e
      | Inr validated_conda_dependency_list \<Rightarrow>
          conda_dependency_loop [] validated_conda_dependency_list)"

section \<open>Resolving with the conda solver\<close>

text \<open>
  \<^verbatim>\<open>resolve_conda_environment\<close>.  The solver is external: \<open>solve_final_state channels specs\<close>
  is what \<^verbatim>\<open>LibMambaSolver("snow-env", channels, specs_to_add).solve_final_state()\<close> does,
  either the package records of the solved state or the exception it raises; \<open>str\<close> is
  \<^verbatim>\<open>str\<close> on a requirement.  The four exception classes of the \<^verbatim>\<open>except\<close> clause are
  constructors of their own, any other exception is \<open>OtherException\<close> and propagates.
\<close>

record package_record =
  record_name :: string
  record_version :: string

datatype conda_exception =
    ResolvePackageNotFound
  | UnsatisfiableError
  | PackagesNotFoundError
  | LibMambaUnsatisfiableError
  | OtherException

datatype solve_outcome =
    SolveFinalState "package_record list"
  | SolveRaises conda_exception

definition resolve_conda_environment ::
  "(string list \<Rightarrow> string list \<Rightarrow> solve_outcome) \<Rightarrow> ('s requirement \<Rightarrow> string)
     \<Rightarrow> 's requirement list \<Rightarrow> string list \<Rightarrow> conda_exception + string list option" where
  "resolve_conda_environment solve_final_state str packages channels =
     (let package_names = map name packages;
          specs = map str packages
      in case solve_final_state channels specs of
           SolveRaises e \<Rightarrow>
             (if e = ResolvePackageNotFound \<or> e = UnsatisfiableError
                 \<or> e = PackagesNotFoundError \<or> e = LibMambaUnsatisfiableError
              then Inr None else Inl e)
         | SolveFinalState solve_result \<Rightarrow>
             Inr (Some (sort (map (\<lambda>pkg_record. record_name pkg_record @ ''=='' @ record_version pkg_record)
                                  (filter (\<lambda>pkg_record. record_name pkg_record \<in> set package_names)
                                          solve_result)))))"

section \<open>Looking versions up in the Snowflake conda channel\<close>











section \<open>Notions the statements are written in\<close>

text \<open>
  The (channel, requirement) pairs of a dictionary in the order the nested loops of
  \<^verbatim>\<open>append_conda_dependency\<close> visit them, the channels under which a package name occurs,
  the package names of all channel lists together, and the exception the loops raise at
  an entry with the name being appended.
\<close>

definition dict_entries :: "'s conda_chan_deps \<Rightarrow> (string \<times> 's requirement) list" where
  "dict_entries d = concat (map (\<lambda>(c, rs). map (Pair c) rs) d)"


definition all_names :: "'s conda_chan_deps \<Rightarrow> string list" where
  "all_names d = map (\<lambda>cr. name (snd cr)) (dict_entries d)"

definition conflict_error :: "string \<Rightarrow> 's requirement \<Rightarrow> string \<times> 's requirement \<Rightarrow> 's error" where
  "conflict_error p_channel p_req cr =
     (if fst cr \<noteq> p_channel
      then DuplicateDependencyInMultipleChannelsError (snd cr) (fst cr) p_req p_channel
      else DuplicateDependencyError (Some (fst cr)) (snd cr) p_req)"





section \<open>Sample instances of the library parameters\<close>

text \<open>
  A small instance of the parameters, on which the theorems below are run: requirements
  whose specifier is a lower bound on a version number, a parser that knows a handful of
  requirement strings and rejects every other string, and a name canonicalisation that
  lower-cases \<^verbatim>\<open>NumPy\<close> and turns the underscore of \<^verbatim>\<open>scikit_learn\<close> into a hyphen.
\<close>

definition sample_req :: "string \<Rightarrow> nat \<Rightarrow> nat requirement" where
  "sample_req n lo = \<lparr>name = n, url = None, extras = {}, specifier = lo, marker = None\<rparr>"

definition marker_req_str :: string where
  "marker_req_str = ''numpy; python_version >= '' @ [CHR 0x27, CHR ''3'', CHR 0x27]"

definition sample_Requirement :: "string \<Rightarrow> nat requirement option" where
  "sample_Requirement s =
     (if s = ''numpy'' then Some (sample_req ''numpy'' 0)
      else if s = ''NumPy>=1'' then Some (sample_req ''NumPy'' 1)
      else if s = ''scikit_learn'' then Some (sample_req ''scikit_learn'' 0)
      else if s = ''scikit-learn'' then Some (sample_req ''scikit-learn'' 0)
      else if s = ''requests[security]''
        then Some ((sample_req ''requests'' 0)\<lparr>extras := {''security''}\<rparr>)
      else if s = ''torch @ https://example.com/torch.whl''
        then Some ((sample_req ''torch'' 0)\<lparr>url := Some ''https://example.com/torch.whl''\<rparr>)
      else if s = marker_req_str
        then Some ((sample_req ''numpy'' 0)\<lparr>marker := Some (drop 7 marker_req_str)\<rparr>)
      else None)"

definition sample_canonicalize_name :: "string \<Rightarrow> string" where
  "sample_canonicalize_name s =
     (if s = ''NumPy'' then ''numpy'' else if s = ''scikit_learn'' then ''scikit-learn'' else s)"







definition sample_solve_final_state :: "string list \<Rightarrow> string list \<Rightarrow> solve_outcome" where
  "sample_solve_final_state channels specs =
     (if channels = [''conda-forge''] then
        SolveFinalState
          [\<lparr>record_name = ''python'', record_version = ''3.8.16''\<rparr>,
           \<lparr>record_name = ''torch'', record_version = ''2.0.1''\<rparr>,
           \<lparr>record_name = ''numpy'', record_version = ''1.24.3''\<rparr>]
      else if channels = [] then SolveRaises PackagesNotFoundError
      else SolveRaises OtherException)"

definition sample_requirement_str :: "nat requirement \<Rightarrow> string" where
  "sample_requirement_str r = name r"

section \<open>Parsing: \<^verbatim>\<open>_validate_pip_requirement_string\<close>\<close>

lemma validate_pip_requirement_string_cases:
  "validate_pip_requirement_string P cn s =
     (case P s of None \<Rightarrow> Inl (ValueError (InvalidPackageRequirement s))
      | Some r \<Rightarrow> if marker r \<noteq> None then Inl (ValueError MarkersNotSupported)
                  else Inr (r\<lparr>name := cn (name r)\<rparr>))"
  by (simp add: validate_pip_requirement_string_def Let_def split: option.splits)

text \<open>
  Claim C4.  \<^verbatim>\<open>_validate_pip_requirement_string\<close> raises exactly when the parser rejects the
  string or the parsed requirement has a marker, and then the exception is a
  \<^verbatim>\<open>ValueError\<close>; otherwise it returns the parsed requirement with the name canonicalised
  and the specifier, extras and URL as parsed.
\<close>

theorem validate_pip_requirement_string_spec:
  "((\<exists>e. validate_pip_requirement_string P cn s = Inl e)
      \<longleftrightarrow> (P s = None \<or> (\<exists>r. P s = Some r \<and> marker r \<noteq> None)))
   \<and> (\<forall>e. validate_pip_requirement_string P cn s = Inl e \<longrightarrow> is_ValueError e)
   \<and> (\<forall>r. P s = Some r \<and> marker r = None \<longrightarrow>
         validate_pip_requirement_string P cn s = Inr (r\<lparr>name := cn (name r)\<rparr>))
   \<and> (\<forall>r r'. P s = Some r \<and> validate_pip_requirement_string P cn s = Inr r' \<longrightarrow>
         name r' = cn (name r) \<and> specifier r' = specifier r \<and> extras r' = extras r
         \<and> url r' = url r \<and> marker r' = marker r \<and> marker r' = None)"
  by (auto simp: validate_pip_requirement_string_cases split: option.splits if_splits)

theorem validate_pip_requirement_string_spec_witness:
  "sample_Requirement ''NumPy>=1'' = Some (sample_req ''NumPy'' 1)
   \<and> marker (sample_req ''NumPy'' 1) = None
   \<and> validate_pip_requirement_string sample_Requirement sample_canonicalize_name ''NumPy>=1''
       = Inr (sample_req ''numpy'' 1)
   \<and> sample_Requirement ''numpy=='' = None
   \<and> (\<exists>e. validate_pip_requirement_string sample_Requirement sample_canonicalize_name ''numpy==''
          = Inl e \<and> is_ValueError e)"
proof -
  note ok = validate_pip_requirement_string_spec
    [of sample_Requirement sample_canonicalize_name "''NumPy>=1''"]
  note bad = validate_pip_requirement_string_spec
    [of sample_Requirement sample_canonicalize_name "''numpy==''"]
  have p: "sample_Requirement ''NumPy>=1'' = Some (sample_req ''NumPy'' 1)"
    by (simp add: sample_Requirement_def)
  have m: "marker (sample_req ''NumPy'' 1) = None"
    by (simp add: sample_req_def)
  have c: "(sample_req ''NumPy'' 1)\<lparr>name := sample_canonicalize_name (name (sample_req ''NumPy'' 1))\<rparr>
             = sample_req ''numpy'' 1"
    by (simp add: sample_req_def sample_canonicalize_name_def)
  have q: "sample_Requirement ''numpy=='' = None"
    by (simp add: sample_Requirement_def marker_req_str_def)
  from ok p m have "validate_pip_requirement_string sample_Requirement sample_canonicalize_name ''NumPy>=1''
       = Inr ((sample_req ''NumPy'' 1)\<lparr>name := sample_canonicalize_name (name (sample_req ''NumPy'' 1))\<rparr>)"
    by blast
  with c have r1: "validate_pip_requirement_string sample_Requirement sample_canonicalize_name ''NumPy>=1''
       = Inr (sample_req ''numpy'' 1)" by simp
  from bad q have r2: "\<exists>e. validate_pip_requirement_string sample_Requirement sample_canonicalize_name ''numpy==''
          = Inl e \<and> is_ValueError e" by blast
  from p m r1 q r2 show ?thesis by blast
qed

section \<open>Channel splitting: \<^verbatim>\<open>_validate_conda_dependency_string\<close>\<close>

lemma rfind_sep_None_iff: "rfind_sep s = None \<longleftrightarrow> \<not> sublist ''::'' s"
proof (induction s)
  case Nil
  show ?case by simp
next
  case (Cons c cs)
  show ?case
  proof (cases cs)
    case Nil
    then show ?thesis by (simp add: sublist_Cons_right)
  next
    case (Cons d ds)
    with Cons.IH show ?thesis
      by (auto simp: sublist_Cons_right split: option.splits)
  qed
qed


lemma rfind_sep_Some:
  "rfind_sep s = Some i \<Longrightarrow>
     \<exists>post. s = take i s @ ''::'' @ post \<and> \<not> sublist ''::'' ('':'' @ post)"
proof (induction s arbitrary: i)
  case Nil
  then show ?case by simp
next
  case (Cons c cs)
  show ?case
  proof (cases "rfind_sep cs")
    case (Some j)
    with Cons.prems have i: "i = Suc j" by simp
    from Cons.IH [OF Some] obtain post
      where "cs = take j cs @ ''::'' @ post" "\<not> sublist ''::'' ('':'' @ post)" by blast
    then have "c # cs = take i (c # cs) @ ''::'' @ post \<and> \<not> sublist ''::'' ('':'' @ post)"
      using i by simp
    then show ?thesis by blast
  next
    case None
    with Cons.prems have c: "c = CHR '':''" and t: "take 1 cs = '':''" and i: "i = 0"
      by (auto split: if_splits)
    from t obtain post where cs: "cs = CHR '':'' # post" by (cases cs) auto
    from None have "\<not> sublist ''::'' cs" by (simp add: rfind_sep_None_iff)
    with c cs i have "c # cs = take i (c # cs) @ ''::'' @ post \<and> \<not> sublist ''::'' ('':'' @ post)"
      by simp
    then show ?thesis by blast
  qed
qed



text \<open>
  Every string that contains the separator has a last occurrence of it, so the two cases
  of the next theorem cover every string.
\<close>

lemma last_sep_exists:
  "sublist ''::'' s \<Longrightarrow> \<exists>pre post. s = pre @ ''::'' @ post \<and> \<not> sublist ''::'' ('':'' @ post)"
proof -
  assume "sublist ''::'' s"
  then obtain i where "rfind_sep s = Some i"
    using rfind_sep_None_iff [of s] by (cases "rfind_sep s") auto
  from rfind_sep_Some [OF this] show ?thesis by blast
qed



section \<open>Appending: \<^verbatim>\<open>append_requirement_list\<close> and \<^verbatim>\<open>append_conda_dependency\<close>\<close>

lemma requirement_list_scan_None_iff:
  "requirement_list_scan req_list p_req = None \<longleftrightarrow> name p_req \<notin> name ` set req_list"
  by (induction req_list) (auto simp: check_if_requirement_same_def)

lemma requirement_list_scan_Some:
  "requirement_list_scan req_list p_req = Some e \<Longrightarrow>
     \<exists>req \<in> set req_list. name req = name p_req \<and> e = DuplicateDependencyError None req p_req"
  by (induction req_list) (auto simp: check_if_requirement_same_def split: if_splits)

lemma find_append_cases:
  "find P (xs @ ys) = (case find P xs of None \<Rightarrow> find P ys | Some x \<Rightarrow> Some x)"
  by (induction xs) auto

lemma find_map_Pair:
  "find P (map (Pair c) rs) = map_option (Pair c) (find (\<lambda>r. P (c, r)) rs)"
  by (induction rs) auto

lemma channel_list_scan_find:
  "channel_list_scan c rs pc p =
     map_option (\<lambda>r. conflict_error pc p (c, r)) (find (\<lambda>r. name p = name r) rs)"
  by (induction rs) (auto simp: check_if_requirement_same_def conflict_error_def)

text \<open>
  The nested loops raise at the first entry, in iteration order, that has the name being
  appended; the channel of that entry decides which exception it is.
\<close>

lemma conda_chan_deps_scan_find:
  "conda_chan_deps_scan d pc p =
     map_option (conflict_error pc p) (find (\<lambda>cr. name p = name (snd cr)) (dict_entries d))"
proof (induction d)
  case Nil
  show ?case by (simp add: dict_entries_def)
next
  case (Cons a d)
  obtain c rs where a: "a = (c, rs)" by (cases a)
  have e: "dict_entries ((c, rs) # d) = map (Pair c) rs @ dict_entries d"
    by (simp add: dict_entries_def)
  show ?case
    using Cons.IH
    by (simp add: a e find_append_cases find_map_Pair channel_list_scan_find
          option.map_comp comp_def split: option.splits)
qed




text \<open>
  Claim C8.  When \<^verbatim>\<open>append_requirement_list\<close> raises, the exception is a
  \<^verbatim>\<open>DuplicateDependencyError\<close> and the list is as it was; when \<^verbatim>\<open>append_conda_dependency\<close>
  raises, the exception is one of the two duplicate errors and the dictionary is as it
  was: no key added, no list changed.
\<close>

theorem append_raises_unchanged:
  "(\<forall>e. fst (append_requirement_list req_list p_req) = Inl e \<longrightarrow>
        is_DuplicateDependencyError e \<and> snd (append_requirement_list req_list p_req) = req_list)
   \<and> (\<forall>e. fst (append_conda_dependency conda_chan_deps (p_channel, p_req)) = Inl e \<longrightarrow>
        (is_DuplicateDependencyError e \<or> is_DuplicateDependencyInMultipleChannelsError e)
        \<and> snd (append_conda_dependency conda_chan_deps (p_channel, p_req)) = conda_chan_deps)"
proof -
  have l: "\<forall>e. fst (append_requirement_list req_list p_req) = Inl e \<longrightarrow>
        is_DuplicateDependencyError e \<and> snd (append_requirement_list req_list p_req) = req_list"
    by (auto simp: append_requirement_list_def split: option.splits
          dest: requirement_list_scan_Some)
  have d: "\<forall>e. fst (append_conda_dependency conda_chan_deps (p_channel, p_req)) = Inl e \<longrightarrow>
        (is_DuplicateDependencyError e \<or> is_DuplicateDependencyInMultipleChannelsError e)
        \<and> snd (append_conda_dependency conda_chan_deps (p_channel, p_req)) = conda_chan_deps"
    by (auto simp: append_conda_dependency_def conda_chan_deps_scan_find conflict_error_def
          split: option.splits if_splits)
  from l d show ?thesis by blast
qed

theorem append_raises_unchanged_witness:
  "fst (append_requirement_list [sample_req ''numpy'' 0] (sample_req ''numpy'' 1))
     = Inl (DuplicateDependencyError None (sample_req ''numpy'' 0) (sample_req ''numpy'' 1))
   \<and> snd (append_requirement_list [sample_req ''numpy'' 0] (sample_req ''numpy'' 1))
     = [sample_req ''numpy'' 0]
   \<and> fst (append_conda_dependency [(''defaults'', [sample_req ''numpy'' 0])]
             (''conda-forge'', sample_req ''numpy'' 1))
     = Inl (DuplicateDependencyInMultipleChannelsError
              (sample_req ''numpy'' 0) ''defaults'' (sample_req ''numpy'' 1) ''conda-forge'')
   \<and> snd (append_conda_dependency [(''defaults'', [sample_req ''numpy'' 0])]
             (''conda-forge'', sample_req ''numpy'' 1))
     = [(''defaults'', [sample_req ''numpy'' 0])]"
proof -
  have l: "fst (append_requirement_list [sample_req ''numpy'' 0] (sample_req ''numpy'' 1))
     = Inl (DuplicateDependencyError None (sample_req ''numpy'' 0) (sample_req ''numpy'' 1))"
    by (simp add: append_requirement_list_def check_if_requirement_same_def sample_req_def)
  have d: "fst (append_conda_dependency [(''defaults'', [sample_req ''numpy'' 0])]
             (''conda-forge'', sample_req ''numpy'' 1))
     = Inl (DuplicateDependencyInMultipleChannelsError
              (sample_req ''numpy'' 0) ''defaults'' (sample_req ''numpy'' 1) ''conda-forge'')"
    by (simp add: append_conda_dependency_def check_if_requirement_same_def sample_req_def)
  from l d
    append_raises_unchanged [of "[sample_req ''numpy'' 0]" "sample_req ''numpy'' 1"
      "[(''defaults'', [sample_req ''numpy'' 0])]" "''conda-forge''"]
  show ?thesis by blast
qed


lemma append_requirement_list_cases:
  "append_requirement_list req_list p_req =
     (if name p_req \<in> name ` set req_list
      then (Inl (the (requirement_list_scan req_list p_req)), req_list)
      else (Inr (), req_list @ [p_req]))"
  using requirement_list_scan_None_iff [of req_list p_req]
  by (auto simp: append_requirement_list_def split: option.splits)

lemma pip_requirement_loop_Inr:
  "pip_requirement_loop P cn seen strs = Inr rs \<Longrightarrow>
     map Inr rs = map Inr seen @ map (validate_pip_requirement_string P cn) strs
     \<and> (distinct (map name seen) \<longrightarrow> distinct (map name rs))"
proof (induction strs arbitrary: seen)
  case Nil
  then show ?case by simp
next
  case (Cons s strs)
  from Cons.prems obtain r where r: "validate_pip_requirement_string P cn s = Inr r"
    by (auto split: sum.splits)
  from Cons.prems r have fresh: "name r \<notin> name ` set seen"
    by (auto simp: append_requirement_list_cases split: if_splits)
  with Cons.prems r have "pip_requirement_loop P cn (seen @ [r]) strs = Inr rs"
    by (simp add: append_requirement_list_cases)
  from Cons.IH [OF this] r fresh show ?case by auto
qed



section \<open>Channel conflicts: \<^verbatim>\<open>append_conda_dependency\<close>\<close>




section \<open>No duplicate package name\<close>

lemma append_conda_dependency_cases:
  "append_conda_dependency d (c, r) =
     (if name r \<in> set (all_names d)
      then (Inl (the (conda_chan_deps_scan d c r)), d)
      else (Inr (), defaultdict_append d c r))"
proof -
  have "find (\<lambda>cr. name r = name (snd cr)) (dict_entries d) = None \<longleftrightarrow> name r \<notin> set (all_names d)"
    by (simp add: find_None_iff all_names_def image_iff Bex_def)
  then show ?thesis
    by (auto simp: append_conda_dependency_def conda_chan_deps_scan_find split: option.splits)
qed

lemma all_names_Cons: "all_names ((c, rs) # d) = map name rs @ all_names d"
  by (simp add: all_names_def dict_entries_def comp_def)

lemma all_names_Nil: "all_names [] = []"
  by (simp add: all_names_def dict_entries_def)

lemma set_all_names_defaultdict_append:
  "set (all_names (defaultdict_append d k v)) = insert (name v) (set (all_names d))"
  by (induction d k v rule: defaultdict_append.induct)
     (auto simp: all_names_Cons all_names_Nil)

lemma distinct_all_names_defaultdict_append:
  "distinct (all_names d) \<Longrightarrow> name v \<notin> set (all_names d) \<Longrightarrow>
     distinct (all_names (defaultdict_append d k v))"
proof (induction d k v rule: defaultdict_append.induct)
  case (1 k v)
  show ?case by (simp add: all_names_Cons all_names_Nil)
next
  case (2 k' vs rest k v)
  show ?case
  proof (cases "k' = k")
    case True
    with "2.prems" show ?thesis by (auto simp: all_names_Cons)
  next
    case False
    with "2.prems" have "distinct (all_names (defaultdict_append rest k v))"
      by (intro "2.IH") (auto simp: all_names_Cons)
    with False "2.prems" show ?thesis
      by (auto simp: all_names_Cons set_all_names_defaultdict_append)
  qed
qed

lemma conda_dependency_loop_Inr:
  "conda_dependency_loop d crs = Inr d' \<Longrightarrow>
     distinct (map (\<lambda>cr. name (snd cr)) crs)
     \<and> set (map (\<lambda>cr. name (snd cr)) crs) \<inter> set (all_names d) = {}
     \<and> (distinct (all_names d) \<longrightarrow> distinct (all_names d'))"
proof (induction crs arbitrary: d)
  case Nil
  then show ?case by simp
next
  case (Cons cr crs)
  obtain c r where cr: "cr = (c, r)" by (cases cr)
  from Cons.prems have fresh: "name r \<notin> set (all_names d)"
    by (auto simp: cr append_conda_dependency_cases split: if_splits)
  with Cons.prems have "conda_dependency_loop (defaultdict_append d c r) crs = Inr d'"
    by (simp add: cr append_conda_dependency_cases)
  from Cons.IH [OF this] fresh show ?case
    by (auto simp: cr set_all_names_defaultdict_append distinct_all_names_defaultdict_append)
qed

text \<open>
  Claim C2.  The names of a list returned by \<^verbatim>\<open>validate_pip_requirement_string_list\<close> are
  pairwise different, and so are the names of all channel lists together of a dictionary
  returned by \<^verbatim>\<open>validate_conda_dependency_string_list\<close>.  The names are the canonical
  ones: validation has replaced each by its canonical form.
\<close>

theorem validated_names_distinct:
  "(\<forall>rs. validate_pip_requirement_string_list P cn strs = Inr rs \<longrightarrow> distinct (map name rs))
   \<and> (\<forall>d. validate_conda_dependency_string_list P cn strs = Inr d \<longrightarrow> distinct (all_names d))"
proof -
  have a: "\<forall>rs. validate_pip_requirement_string_list P cn strs = Inr rs \<longrightarrow> distinct (map name rs)"
    using pip_requirement_loop_Inr [of P cn "[]" strs]
    by (simp add: validate_pip_requirement_string_list_def)
  have b: "\<forall>d. validate_conda_dependency_string_list P cn strs = Inr d \<longrightarrow> distinct (all_names d)"
  proof (intro allI impI)
    fix d
    assume "validate_conda_dependency_string_list P cn strs = Inr d"
    then obtain crs where "conda_dependency_loop [] crs = Inr d"
      by (auto simp: validate_conda_dependency_string_list_def split: sum.splits)
    from conda_dependency_loop_Inr [OF this] show "distinct (all_names d)"
      by (simp add: all_names_Nil)
  qed
  from a b show ?thesis by blast
qed

theorem validated_names_distinct_witness:
  "validate_pip_requirement_string_list sample_Requirement sample_canonicalize_name
     [''NumPy>=1'', ''scikit_learn'']
     = Inr [sample_req ''numpy'' 1, sample_req ''scikit-learn'' 0]
   \<and> distinct (map name [sample_req ''numpy'' 1, sample_req ''scikit-learn'' 0 :: nat requirement])
   \<and> validate_conda_dependency_string_list sample_Requirement sample_canonicalize_name
     [''NumPy>=1'', ''conda-forge::scikit_learn'', ''pip::requests[security]'']
     = Inr [(''defaults'', [sample_req ''numpy'' 1]),
            (''conda-forge'', [sample_req ''scikit-learn'' 0]),
            (''pip'', [(sample_req ''requests'' 0)\<lparr>extras := {''security''}\<rparr>])]
   \<and> distinct (all_names [(''defaults'', [sample_req ''numpy'' 1]),
            (''conda-forge'', [sample_req ''scikit-learn'' 0]),
            (''pip'', [(sample_req ''requests'' 0)\<lparr>extras := {''security''}\<rparr>])])"
proof -
  have v: "validate_pip_requirement_string_list sample_Requirement sample_canonicalize_name
     [''NumPy>=1'', ''scikit_learn'']
     = Inr [sample_req ''numpy'' 1, sample_req ''scikit-learn'' 0]"
    by (simp add: append_requirement_list_def check_if_requirement_same_def sample_req_def
        validate_pip_requirement_string_list_def validate_pip_requirement_string_cases
        sample_Requirement_def sample_canonicalize_name_def)
  have m: "map_validate sample_Requirement sample_canonicalize_name
     [''NumPy>=1'', ''conda-forge::scikit_learn'', ''pip::requests[security]'']
     = Inr [(''defaults'', sample_req ''numpy'' 1), (''conda-forge'', sample_req ''scikit-learn'' 0),
            (''pip'', (sample_req ''requests'' 0)\<lparr>extras := {''security''}\<rparr>)]"
    by (simp add: validate_conda_dependency_string_def rpartition_sep_def
          validate_pip_requirement_string_cases sample_Requirement_def sample_canonicalize_name_def
          sample_req_def truthy_extras_def truthy_url_def)
  have l: "conda_dependency_loop []
            [(''defaults'', sample_req ''numpy'' 1), (''conda-forge'', sample_req ''scikit-learn'' 0),
             (''pip'', (sample_req ''requests'' 0)\<lparr>extras := {''security''}\<rparr>)]
     = Inr [(''defaults'', [sample_req ''numpy'' 1]),
            (''conda-forge'', [sample_req ''scikit-learn'' 0]),
            (''pip'', [(sample_req ''requests'' 0)\<lparr>extras := {''security''}\<rparr>])]"
    by (simp add: append_conda_dependency_def check_if_requirement_same_def sample_req_def)
  from m l have w: "validate_conda_dependency_string_list sample_Requirement sample_canonicalize_name
     [''NumPy>=1'', ''conda-forge::scikit_learn'', ''pip::requests[security]'']
     = Inr [(''defaults'', [sample_req ''numpy'' 1]),
            (''conda-forge'', [sample_req ''scikit-learn'' 0]),
            (''pip'', [(sample_req ''requests'' 0)\<lparr>extras := {''security''}\<rparr>])]"
    by (simp add: validate_conda_dependency_string_list_def)
  note t = validated_names_distinct [of sample_Requirement sample_canonicalize_name]
  from t [of "[''NumPy>=1'', ''scikit_learn'']"] v
  have a: "distinct (map name [sample_req ''numpy'' 1, sample_req ''scikit-learn'' 0 :: nat requirement])"
    by blast
  from t [of "[''NumPy>=1'', ''conda-forge::scikit_learn'', ''pip::requests[security]'']"] w
  have b: "distinct (all_names [(''defaults'', [sample_req ''numpy'' 1]),
            (''conda-forge'', [sample_req ''scikit-learn'' 0]),
            (''pip'', [(sample_req ''requests'' 0)\<lparr>extras := {''security''}\<rparr>])])"
    by blast
  from v a w b show ?thesis by blast
qed

section \<open>Duplicate detection is on canonical names\<close>









section \<open>The conda solver wrapper\<close>

text \<open>
  Claim C7.  \<^verbatim>\<open>resolve_conda_environment\<close> returns \<^verbatim>\<open>None\<close> exactly when the solver raises one
  of the four not-found or unsatisfiable errors; when the solver returns its records, the
  result is the sorted list of the strings \<^verbatim>\<open>name==version\<close> of exactly the records whose
  name is the name of a requested package.  Any other exception of the solver propagates.
\<close>

theorem resolve_conda_environment_spec:
  "((resolve_conda_environment solve_final_state str packages channels = Inr None)
      \<longleftrightarrow> (\<exists>e. solve_final_state channels (map str packages) = SolveRaises e
               \<and> e \<in> {ResolvePackageNotFound, UnsatisfiableError, PackagesNotFoundError,
                       LibMambaUnsatisfiableError}))
   \<and> (\<forall>solve_result. solve_final_state channels (map str packages) = SolveFinalState solve_result \<longrightarrow>
        (\<exists>out. resolve_conda_environment solve_final_state str packages channels = Inr (Some out)
           \<and> out = sort (map (\<lambda>r. record_name r @ ''=='' @ record_version r)
                            (filter (\<lambda>r. record_name r \<in> name ` set packages) solve_result))
           \<and> sorted out
           \<and> set out = (\<lambda>r. record_name r @ ''=='' @ record_version r)
                          ` {r \<in> set solve_result. record_name r \<in> name ` set packages}))
   \<and> (solve_final_state channels (map str packages) = SolveRaises OtherException \<longrightarrow>
        resolve_conda_environment solve_final_state str packages channels = Inl OtherException)"
proof -
  show ?thesis
  proof (cases "solve_final_state channels (map str packages)")
    case (SolveFinalState solve_result)
    then show ?thesis
      by (simp add: resolve_conda_environment_def)
  next
    case (SolveRaises e)
    then show ?thesis
      by (cases e) (simp_all add: resolve_conda_environment_def)
  qed
qed

theorem resolve_conda_environment_spec_witness:
  "sample_solve_final_state [''conda-forge'']
       (map sample_requirement_str [sample_req ''numpy'' 1, sample_req ''torch'' 0])
     = SolveFinalState
          [\<lparr>record_name = ''python'', record_version = ''3.8.16''\<rparr>,
           \<lparr>record_name = ''torch'', record_version = ''2.0.1''\<rparr>,
           \<lparr>record_name = ''numpy'', record_version = ''1.24.3''\<rparr>]
   \<and> resolve_conda_environment sample_solve_final_state sample_requirement_str
        [sample_req ''numpy'' 1, sample_req ''torch'' 0] [''conda-forge'']
     = Inr (Some [''numpy==1.24.3'', ''torch==2.0.1''])
   \<and> sample_solve_final_state []
       (map sample_requirement_str [sample_req ''numpy'' 1, sample_req ''torch'' 0])
     = SolveRaises PackagesNotFoundError
   \<and> resolve_conda_environment sample_solve_final_state sample_requirement_str
        [sample_req ''numpy'' 1, sample_req ''torch'' 0] [] = Inr None
   \<and> sample_solve_final_state [''nowhere'']
       (map sample_requirement_str [sample_req ''numpy'' 1, sample_req ''torch'' 0])
     = SolveRaises OtherException
   \<and> resolve_conda_environment sample_solve_final_state sample_requirement_str
        [sample_req ''numpy'' 1, sample_req ''torch'' 0] [''nowhere''] = Inl OtherException"
proof -
  let ?pk = "[sample_req ''numpy'' 1, sample_req ''torch'' 0]"
  have s1: "sample_solve_final_state [''conda-forge''] (map sample_requirement_str ?pk)
     = SolveFinalState
          [\<lparr>record_name = ''python'', record_version = ''3.8.16''\<rparr>,
           \<lparr>record_name = ''torch'', record_version = ''2.0.1''\<rparr>,
           \<lparr>record_name = ''numpy'', record_version = ''1.24.3''\<rparr>]"
    by (simp add: sample_solve_final_state_def)
  have s2: "sample_solve_final_state [] (map sample_requirement_str ?pk)
     = SolveRaises PackagesNotFoundError"
    by (simp add: sample_solve_final_state_def)
  have s3: "sample_solve_final_state [''nowhere''] (map sample_requirement_str ?pk)
     = SolveRaises OtherException"
    by (simp add: sample_solve_final_state_def)
  have f: "sort (map (\<lambda>r. record_name r @ ''=='' @ record_version r)
             (filter (\<lambda>r. record_name r \<in> name ` set ?pk)
                [\<lparr>record_name = ''python'', record_version = ''3.8.16''\<rparr>,
                 \<lparr>record_name = ''torch'', record_version = ''2.0.1''\<rparr>,
                 \<lparr>record_name = ''numpy'', record_version = ''1.24.3''\<rparr>]))
           = [''numpy==1.24.3'', ''torch==2.0.1'']"
    by (simp add: sample_req_def)
  note t1 = resolve_conda_environment_spec
    [of sample_solve_final_state sample_requirement_str ?pk "[''conda-forge'']"]
  note t2 = resolve_conda_environment_spec
    [of sample_solve_final_state sample_requirement_str ?pk "[]"]
  note t3 = resolve_conda_environment_spec
    [of sample_solve_final_state sample_requirement_str ?pk "[''nowhere'']"]
  from t1 s1 obtain out
    where "resolve_conda_environment sample_solve_final_state sample_requirement_str
             ?pk [''conda-forge''] = Inr (Some out)"
      and "out = sort (map (\<lambda>r. record_name r @ ''=='' @ record_version r)
             (filter (\<lambda>r. record_name r \<in> name ` set ?pk)
                [\<lparr>record_name = ''python'', record_version = ''3.8.16''\<rparr>,
                 \<lparr>record_name = ''torch'', record_version = ''2.0.1''\<rparr>,
                 \<lparr>record_name = ''numpy'', record_version = ''1.24.3''\<rparr>]))"
    by blast
  with f have a: "resolve_conda_environment sample_solve_final_state sample_requirement_str
        ?pk [''conda-forge''] = Inr (Some [''numpy==1.24.3'', ''torch==2.0.1''])"
    by (simp only:)
  from t2 s2 have b: "resolve_conda_environment sample_solve_final_state sample_requirement_str
        ?pk [] = Inr None" by blast
  from t3 s3 have c: "resolve_conda_environment sample_solve_final_state sample_requirement_str
        ?pk [''nowhere''] = Inl OtherException" by blast
  from s1 a s2 b s3 c show ?thesis by blast
qed

section \<open>The Snowflake conda channel and its cache\<close>











end
